theory Spec2Isabelle
  imports Main "HOL-Library.Sublist"
begin

section \<open>Gallery Explorer: the data-acquisition pipeline of \<open>src/App.tsx\<close>\<close>

text \<open>
  The repository holds two variants of \<open>App.tsx\<close>. The \<^emph>\<open>multi-page\<close> variant requests
  \<open>TOTAL_PAGES = 10\<close> pages concurrently, deduplicates the merged pages by identifier,
  filters, and drops decade buckets with fewer than 20 members. The \<^emph>\<open>single-page\<close>
  variant requests one page, filters it, and keeps every bucket. Definitions that differ
  between the variants carry the suffix \<open>_multi\<close> or \<open>_single\<close>.

  JavaScript numbers that the code uses as identifiers, years and status codes are
  modelled as \<open>int\<close>: for integers of magnitude below \<open>2^53\<close> the double-precision
  \<open>Math.floor(x / 10) * 10\<close> agrees with \<open>(x div 10) * 10\<close>, and \<open>div\<close> on \<open>int\<close> rounds
  towards minus infinity as \<open>Math.floor\<close> does. An optional field (\<open>date_start?: number\<close>)
  is an \<open>option\<close>, with \<open>None\<close> for an absent, \<open>undefined\<close> or \<open>null\<close> value.
\<close>

subsection \<open>Data model\<close>

record Artwork =
  artwork_id :: int
  title :: string
  artist_display :: "string option"
  date_display :: "string option"
  date_start :: "int option"
  image_id :: "string option"

record DecadeCollection =
  label :: string
  startYear :: int
  artworks :: "Artwork list"

definition TOTAL_PAGES :: nat where
  "TOTAL_PAGES = 10"

subsection \<open>JavaScript primitives used by the code\<close>

text \<open>Truthiness: a number is truthy unless it is \<open>0\<close>, a string unless it is empty;
  \<open>undefined\<close> is falsy.\<close>

definition truthy_number :: "int \<Rightarrow> bool" where
  "truthy_number n = (n \<noteq> 0)"

definition truthy_string :: "string \<Rightarrow> bool" where
  "truthy_string s = (s \<noteq> [])"

definition truthy_opt_number :: "int option \<Rightarrow> bool" where
  "truthy_opt_number v = (case v of None \<Rightarrow> False | Some n \<Rightarrow> truthy_number n)"

text \<open>\<open>String(n)\<close> for an integer: decimal digits, with a leading minus sign.\<close>

definition digit_char :: "nat \<Rightarrow> char" where
  "digit_char d = ''0123456789'' ! (d mod 10)"

fun String_nat :: "nat \<Rightarrow> string" where
  "String_nat n = (if n < 10 then [digit_char n] else String_nat (n div 10) @ [digit_char (n mod 10)])"

declare String_nat.simps [simp del]

definition String_number :: "int \<Rightarrow> string" where
  "String_number i = (if i < 0 then CHR ''-'' # String_nat (nat (- i)) else String_nat (nat i))"

text \<open>A \<open>Map\<close> iterates in insertion order; \<open>set\<close> on a key already present replaces the
  value in place, \<open>set\<close> on a new key appends the entry.\<close>

type_synonym ('k, 'v) js_map = "('k \<times> 'v) list"

definition Map_has :: "('k, 'v) js_map \<Rightarrow> 'k \<Rightarrow> bool" where
  "Map_has m k = (k \<in> set (map fst m))"

definition Map_get :: "('k, 'v) js_map \<Rightarrow> 'k \<Rightarrow> 'v option" where
  "Map_get m k = map_of m k"

fun Map_set :: "('k, 'v) js_map \<Rightarrow> 'k \<Rightarrow> 'v \<Rightarrow> ('k, 'v) js_map" where
  "Map_set [] k v = [(k, v)]"
| "Map_set ((k', v') # m) k v = (if k' = k then (k, v) # m else (k', v') # Map_set m k v)"

definition Map_values :: "('k, 'v) js_map \<Rightarrow> 'v list" where
  "Map_values m = map snd m"

definition Map_entries :: "('k, 'v) js_map \<Rightarrow> ('k \<times> 'v) list" where
  "Map_entries m = m"

subsection \<open>Image URL\<close>

definition imageUrl :: "string option \<Rightarrow> string" where
  "imageUrl imageId =
     (case imageId of
        Some s \<Rightarrow>
          if truthy_string s
          then ''https://www.artic.edu/iiif/2/'' @ s @ ''/full/843,/0/default.jpg''
          else ''https://images.artic.edu/iiif/2/8d6f8f8b-fafa-376e-4f0f-0a36d4f7288f/full/843,/0/default.jpg''
      | None \<Rightarrow>
          ''https://images.artic.edu/iiif/2/8d6f8f8b-fafa-376e-4f0f-0a36d4f7288f/full/843,/0/default.jpg'')"

subsection \<open>Fetcher\<close>

text \<open>A thrown value is an \<open>Error\<close> instance carrying its message, or something else.
  A response carries its status and the \<open>data\<close> array of its JSON body; \<open>response.ok\<close> is
  true exactly for a status in the range 200 to 299. A rejection stands for any exception
  raised while the request is made or its body is read.\<close>

datatype thrown = JsError string | NonError

record Response =
  status :: int
  json_data :: "Artwork list"

definition ok :: "Response \<Rightarrow> bool" where
  "ok response = (200 \<le> status response \<and> status response \<le> 299)"

text \<open>The network answers each page request with a rejection or a response, at some
  settlement time, and records the requests it has received.\<close>

record Network =
  respond :: "int \<Rightarrow> thrown + Response"
  settle_time :: "int \<Rightarrow> nat"
  requested :: "int list"

definition fetch :: "Network \<Rightarrow> int \<Rightarrow> (thrown + Response) \<times> Network" where
  "fetch net page = (respond net page, net\<lparr>requested := requested net @ [page]\<rparr>)"

definition http_error :: "Response \<Rightarrow> thrown" where
  "http_error response =
     JsError (''Unable to load artwork data (HTTP '' @ String_number (status response) @ '')'')"

definition fetchArtworkPage :: "Network \<Rightarrow> int \<Rightarrow> (thrown + Artwork list) \<times> Network" where
  "fetchArtworkPage net page =
     (case fetch net page of
        (Inl err, net') \<Rightarrow> (Inl err, net')
      | (Inr response, net') \<Rightarrow>
          if \<not> ok response then (Inl (http_error response), net')
          else (Inr (json_data response), net'))"

text \<open>\<open>pageNumbers.map((page) => fetchArtworkPage(page))\<close>: the requests are issued in
  page order; each promise is paired with the time at which it settles.\<close>

fun map_fetchArtworkPage ::
  "Network \<Rightarrow> int list \<Rightarrow> (nat \<times> (thrown + Artwork list)) list \<times> Network" where
  "map_fetchArtworkPage net [] = ([], net)"
| "map_fetchArtworkPage net (page # rest) =
     (case fetchArtworkPage net page of
        (r, net1) \<Rightarrow>
          (case map_fetchArtworkPage net1 rest of
             (rs, net2) \<Rightarrow> ((settle_time net page, r) # rs, net2)))"

text \<open>\<open>Promise.all\<close> rejects with the reason of the promise that rejects first in time
  (the earlier array position on equal times), and otherwise fulfils with all values in
  array order.\<close>

fun first_rejection :: "(nat \<times> (thrown + 'a)) list \<Rightarrow> (nat \<times> thrown) option" where
  "first_rejection [] = None"
| "first_rejection ((t, Inr v) # ps) = first_rejection ps"
| "first_rejection ((t, Inl e) # ps) =
     (case first_rejection ps of
        None \<Rightarrow> Some (t, e)
      | Some (t', e') \<Rightarrow> if t' < t then Some (t', e') else Some (t, e))"

fun fulfilled_values :: "(nat \<times> (thrown + 'a)) list \<Rightarrow> 'a list" where
  "fulfilled_values [] = []"
| "fulfilled_values ((t, Inr v) # ps) = v # fulfilled_values ps"
| "fulfilled_values ((t, Inl e) # ps) = fulfilled_values ps"

definition Promise_all :: "(nat \<times> (thrown + 'a)) list \<Rightarrow> thrown + 'a list" where
  "Promise_all ps =
     (case first_rejection ps of
        Some (t, e) \<Rightarrow> Inl e
      | None \<Rightarrow> Inr (fulfilled_values ps))"

subsection \<open>Aggregator\<close>

text \<open>The retention filter \<open>(item) => item.date_start && item.title\<close>.\<close>

definition retained :: "Artwork \<Rightarrow> bool" where
  "retained item = (truthy_opt_number (date_start item) \<and> truthy_string (title item))"

text \<open>The deduplication loop of the multi-page variant.\<close>

definition dedupe_step :: "(int, Artwork) js_map \<Rightarrow> Artwork \<Rightarrow> (int, Artwork) js_map" where
  "dedupe_step deduped item =
     (if truthy_number (artwork_id item) \<and> \<not> Map_has deduped (artwork_id item)
      then Map_set deduped (artwork_id item) item
      else deduped)"

definition dedupe :: "Artwork list \<Rightarrow> (int, Artwork) js_map" where
  "dedupe merged = foldl dedupe_step [] merged"

definition filtered_multi :: "Artwork list list \<Rightarrow> Artwork list" where
  "filtered_multi pages = filter retained (Map_values (dedupe (concat pages)))"

definition filtered_single :: "Artwork list \<Rightarrow> Artwork list" where
  "filtered_single page = filter retained page"

subsection \<open>The load task\<close>

record AppState =
  state_artworks :: "Artwork list"
  selectedIndex :: int
  isLoading :: bool
  error :: "string option"

definition initial_state :: AppState where
  "initial_state = \<lparr>state_artworks = [], selectedIndex = 0, isLoading = True, error = None\<rparr>"

definition error_message :: "thrown \<Rightarrow> string" where
  "error_message err = (case err of JsError m \<Rightarrow> m | NonError \<Rightarrow> ''Unexpected error loading data'')"

definition pageNumbers :: "int list" where
  "pageNumbers = map (\<lambda>index. int index + 1) [0..<TOTAL_PAGES]"

definition fetchArtworks_multi :: "Network \<Rightarrow> AppState \<Rightarrow> AppState \<times> Network" where
  "fetchArtworks_multi net s =
     (let s1 = s\<lparr>isLoading := True, error := None\<rparr> in
      case map_fetchArtworkPage net pageNumbers of
        (promises, net') \<Rightarrow>
          (case Promise_all promises of
             Inr pages \<Rightarrow> (s1\<lparr>state_artworks := filtered_multi pages, isLoading := False\<rparr>, net')
           | Inl err \<Rightarrow> (s1\<lparr>error := Some (error_message err), isLoading := False\<rparr>, net')))"

definition fetchArtworks_single :: "Network \<Rightarrow> AppState \<Rightarrow> AppState \<times> Network" where
  "fetchArtworks_single net s =
     (let s1 = s\<lparr>isLoading := True, error := None\<rparr> in
      case fetch net 1 of
        (Inl err, net') \<Rightarrow> (s1\<lparr>error := Some (error_message err), isLoading := False\<rparr>, net')
      | (Inr response, net') \<Rightarrow>
          if \<not> ok response
          then (s1\<lparr>error := Some (error_message (http_error response)), isLoading := False\<rparr>, net')
          else (s1\<lparr>state_artworks := filtered_single (json_data response), isLoading := False\<rparr>, net'))"

subsection \<open>Bucketizer\<close>

text \<open>\<open>Math.floor(artwork.date_start / 10) * 10\<close>. The code computes it in double
  precision; the integer expression below is its value for a start year of magnitude below
  \<open>2^53\<close>, the range that \<open>safe_start_years\<close> delimits.\<close>

definition decadeStart :: "int \<Rightarrow> int" where
  "decadeStart y = (y div 10) * 10"

definition add_to_bucket ::
  "(int, Artwork list) js_map \<Rightarrow> Artwork \<Rightarrow> (int, Artwork list) js_map" where
  "add_to_bucket buckets artwork =
     (case date_start artwork of
        None \<Rightarrow> buckets
      | Some y \<Rightarrow>
          (let current = (case Map_get buckets (decadeStart y) of None \<Rightarrow> [] | Some c \<Rightarrow> c)
           in Map_set buckets (decadeStart y) (current @ [artwork])))"

definition group_by_decade :: "Artwork list \<Rightarrow> (int, Artwork list) js_map" where
  "group_by_decade as = foldl add_to_bucket [] as"

text \<open>The comparator \<open>(a.date_start ?? 0) - (b.date_start ?? 0)\<close> orders by this key;
  \<open>Array.prototype.sort\<close> is stable, as \<open>sort_key\<close> is.\<close>

definition date_key :: "Artwork \<Rightarrow> int" where
  "date_key a = (case date_start a of None \<Rightarrow> 0 | Some y \<Rightarrow> y)"

definition make_collection :: "int \<times> Artwork list \<Rightarrow> DecadeCollection" where
  "make_collection entry =
     (case entry of (start, items) \<Rightarrow>
        \<lparr>label = String_number start @ ''s'',
         startYear = start,
         artworks = sort_key date_key items\<rparr>)"

definition decades_multi :: "Artwork list \<Rightarrow> DecadeCollection list" where
  "decades_multi as =
     sort_key startYear
       (filter (\<lambda>collection. 20 \<le> length (artworks collection))
          (map make_collection (Map_entries (group_by_decade as))))"

definition decades_single :: "Artwork list \<Rightarrow> DecadeCollection list" where
  "decades_single as =
     map make_collection (sort_key fst (Map_entries (group_by_decade as)))"

subsection \<open>Selection clamp\<close>

text \<open>The effect that runs when \<open>decades\<close> changes: it returns early on an empty list and
  otherwise sets the index to \<open>Math.min(current, decades.length - 1)\<close>.\<close>

definition clamp_selectedIndex :: "DecadeCollection list \<Rightarrow> int \<Rightarrow> int" where
  "clamp_selectedIndex decades current =
     (if length decades = 0 then current else min current (int (length decades) - 1))"

text \<open>The effect runs once for every change of the bucket list.\<close>

definition clamp_run :: "int \<Rightarrow> DecadeCollection list list \<Rightarrow> int" where
  "clamp_run current changes = foldl (\<lambda>i decades. clamp_selectedIndex decades i) current changes"

subsection \<open>Auxiliary notions for the statements\<close>

text \<open>The records of a list that fall into the decade starting at \<open>d\<close>.\<close>

definition in_decade :: "int \<Rightarrow> Artwork \<Rightarrow> bool" where
  "in_decade d a = (case date_start a of None \<Rightarrow> False | Some y \<Rightarrow> decadeStart y = d)"

text \<open>The first occurrence of every truthy identifier not seen before, in list order.\<close>

fun first_occurrences :: "int set \<Rightarrow> Artwork list \<Rightarrow> Artwork list" where
  "first_occurrences seen [] = []"
| "first_occurrences seen (a # as) =
     (if artwork_id a \<noteq> 0 \<and> artwork_id a \<notin> seen
      then a # first_occurrences (insert (artwork_id a) seen) as
      else first_occurrences seen as)"

text \<open>The deduplication in the words of its contract: of the records that share an
  identifier only the first is kept, and the kept records stand in their original order.\<close>

fun spec_first_occurrences :: "Artwork list \<Rightarrow> Artwork list" where
  "spec_first_occurrences [] = []"
| "spec_first_occurrences (a # as) =
     a # spec_first_occurrences (filter (\<lambda>b. artwork_id b \<noteq> artwork_id a) as)"

text \<open>The start years of a record set are integers that double precision represents
  exactly, with exact quotients by ten.\<close>

definition safe_start_years :: "Artwork list \<Rightarrow> bool" where
  "safe_start_years as =
     list_all (\<lambda>a. case date_start a of None \<Rightarrow> True | Some y \<Rightarrow> \<bar>y\<bar> < 2 ^ 53) as"


subsection \<open>Fixtures of the scenarios\<close>

definition scenario_A :: Artwork where
  "scenario_A = \<lparr>artwork_id = 1, title = ''A'', artist_display = None, date_display = None,
     date_start = Some 1923, image_id = None\<rparr>"

definition scenario_untitled :: Artwork where
  "scenario_untitled = \<lparr>artwork_id = 2, title = [], artist_display = None, date_display = None,
     date_start = Some 1925, image_id = None\<rparr>"

definition scenario_dup :: Artwork where
  "scenario_dup = \<lparr>artwork_id = 1, title = ''A-dup'', artist_display = None, date_display = None,
     date_start = Some 1923, image_id = None\<rparr>"

definition scenario_page :: "Artwork list" where
  "scenario_page = [scenario_A, scenario_untitled, scenario_dup]"



text \<open>A network on which page 1 yields the scenario page and every other page is empty.\<close>

definition scenario_network :: Network where
  "scenario_network =
     \<lparr>respond = (\<lambda>page. Inr \<lparr>status = 200, json_data = (if page = 1 then scenario_page else [])\<rparr>),
      settle_time = (\<lambda>page. nat page),
      requested = []\<rparr>"

definition scenario_bucket :: "Artwork list \<Rightarrow> DecadeCollection" where
  "scenario_bucket members = \<lparr>label = ''1920s'', startYear = 1920, artworks = members\<rparr>"

text \<open>Records with a zero start year and with a zero identifier.\<close>

definition zero_year_record :: Artwork where
  "zero_year_record = scenario_A\<lparr>date_start := Some 0\<rparr>"

definition zero_id_record :: Artwork where
  "zero_id_record = scenario_A\<lparr>artwork_id := 0\<rparr>"

definition zero_id_twin :: Artwork where
  "zero_id_twin = scenario_dup\<lparr>artwork_id := 0\<rparr>"


text \<open>Records for the bucketizer: a negative start year, a later year of the 1920s, a
  lone record of the 1930s, and twenty records of the 1920s.\<close>

definition negative_year_record :: Artwork where
  "negative_year_record = scenario_A\<lparr>artwork_id := 4, date_start := Some (- 5)\<rparr>"

definition sparse_record :: Artwork where
  "sparse_record = scenario_A\<lparr>artwork_id := 3, date_start := Some 1931\<rparr>"

definition later_record :: Artwork where
  "later_record = scenario_A\<lparr>artwork_id := 5, title := ''B'', date_start := Some 1925\<rparr>"

definition twenty_records :: "Artwork list" where
  "twenty_records = map (\<lambda>i. scenario_A\<lparr>artwork_id := int i\<rparr>) [1..<21]"

definition negative_bucket :: DecadeCollection where
  "negative_bucket = \<lparr>label = ''-10s'', startYear = - 10, artworks = [negative_year_record]\<rparr>"

section \<open>Properties\<close>

subsection \<open>Insertion-ordered maps\<close>

lemma Map_set_new: "\<not> Map_has m k \<Longrightarrow> Map_set m k v = m @ [(k, v)]"
  by (induction m) (auto simp: Map_has_def)

lemma map_of_Map_set: "map_of (Map_set m k v) = (map_of m)(k \<mapsto> v)"
  by (induction m) (auto simp: fun_eq_iff)

lemma keys_Map_set:
  "map fst (Map_set m k v) = (if k \<in> set (map fst m) then map fst m else map fst m @ [k])"
proof (induction m)
  case Nil
  then show ?case by simp
next
  case (Cons e m)
  obtain k' v' where e: "e = (k', v')" by (cases e)
  show ?case
  proof (cases "k' = k")
    case True
    with e show ?thesis by simp
  next
    case False
    with e Cons.IH show ?thesis by simp
  qed
qed

lemma distinct_Map_set: "distinct (map fst m) \<Longrightarrow> distinct (map fst (Map_set m k v))"
  by (simp add: keys_Map_set)

subsection \<open>The deduplication loop\<close>

lemma foldl_dedupe_step:
  "foldl dedupe_step m xs = m @ map (\<lambda>a. (artwork_id a, a)) (first_occurrences (fst ` set m) xs)"
proof (induction xs arbitrary: m)
  case Nil
  then show ?case by simp
next
  case (Cons a as)
  show ?case
  proof (cases "artwork_id a \<noteq> 0 \<and> artwork_id a \<notin> fst ` set m")
    case True
    then have "dedupe_step m a = m @ [(artwork_id a, a)]"
      by (simp add: dedupe_step_def truthy_number_def Map_has_def Map_set_new)
    with True show ?thesis
      by (simp add: Cons.IH)
  next
    case False
    then have "dedupe_step m a = m"
      by (auto simp: dedupe_step_def truthy_number_def Map_has_def)
    with False show ?thesis
      by (auto simp: Cons.IH)
  qed
qed

lemma values_dedupe: "Map_values (dedupe merged) = first_occurrences {} merged"
  by (simp add: dedupe_def foldl_dedupe_step Map_values_def comp_def)

lemma first_occurrences_ids:
  "a \<in> set (first_occurrences seen xs) \<Longrightarrow> artwork_id a \<noteq> 0 \<and> artwork_id a \<notin> seen"
  by (induction xs arbitrary: seen) (auto split: if_splits)

lemma first_occurrences_distinct: "distinct (map artwork_id (first_occurrences seen xs))"
  by (induction xs arbitrary: seen) (auto dest: first_occurrences_ids)

lemma first_occurrences_subseq: "subseq (first_occurrences seen xs) xs"
  by (induction xs arbitrary: seen) auto

lemma first_occurrences_find:
  "a \<in> set (first_occurrences seen xs) \<Longrightarrow> List.find (\<lambda>b. artwork_id b = artwork_id a) xs = Some a"
proof (induction xs arbitrary: seen)
  case Nil
  then show ?case by simp
next
  case (Cons x xs)
  then show ?case
    by (auto split: if_splits dest: first_occurrences_ids)
qed

lemma first_occurrences_spec:
  "first_occurrences seen xs =
     spec_first_occurrences (filter (\<lambda>a. artwork_id a \<noteq> 0 \<and> artwork_id a \<notin> seen) xs)"
proof (induction xs arbitrary: seen)
  case Nil
  then show ?case by simp
next
  case (Cons x xs)
  let ?P = "\<lambda>seen a. artwork_id a \<noteq> 0 \<and> artwork_id a \<notin> seen"
  show ?case
  proof (cases "?P seen x")
    case True
    have f: "filter (\<lambda>b. artwork_id b \<noteq> artwork_id x) (filter (?P seen) xs)
        = filter (?P (insert (artwork_id x) seen)) xs"
      by (induction xs) auto
    from True have "first_occurrences seen (x # xs)
        = x # first_occurrences (insert (artwork_id x) seen) xs"
      by simp
    also have "\<dots> = x # spec_first_occurrences (filter (?P (insert (artwork_id x) seen)) xs)"
      by (simp only: Cons.IH)
    also have "\<dots> = spec_first_occurrences (x # filter (?P seen) xs)"
      by (simp only: f spec_first_occurrences.simps)
    also from True have "x # filter (?P seen) xs = filter (?P seen) (x # xs)"
      by simp
    finally show ?thesis .
  next
    case False
    then have "first_occurrences seen (x # xs) = first_occurrences seen xs"
      and "filter (?P seen) (x # xs) = filter (?P seen) xs"
      by auto
    then show ?thesis
      by (simp only: Cons.IH)
  qed
qed

lemma first_occurrences_keeps:
  "List.find (\<lambda>b. artwork_id b = artwork_id a) xs = Some a \<Longrightarrow> artwork_id a \<noteq> 0
     \<Longrightarrow> artwork_id a \<notin> seen \<Longrightarrow> a \<in> set (first_occurrences seen xs)"
proof (induction xs arbitrary: seen)
  case Nil
  then show ?case by simp
next
  case (Cons x xs)
  show ?case
  proof (cases "artwork_id x = artwork_id a")
    case True
    with Cons.prems have "x = a" by simp
    with Cons.prems show ?thesis by simp
  next
    case False
    with Cons.prems have "List.find (\<lambda>b. artwork_id b = artwork_id a) xs = Some a"
      by simp
    from Cons.IH [OF this Cons.prems(2)] False Cons.prems(3) show ?thesis
      by simp
  qed
qed

subsection \<open>Grouping by decade\<close>

lemma map_of_add_to_bucket:
  "map_of (add_to_bucket m a) d =
     (if in_decade d a
      then Some ((case map_of m d of None \<Rightarrow> [] | Some c \<Rightarrow> c) @ [a])
      else map_of m d)"
  by (auto simp: add_to_bucket_def in_decade_def Map_get_def map_of_Map_set Let_def
      split: option.splits)

lemma distinct_add_to_bucket:
  "distinct (map fst m) \<Longrightarrow> distinct (map fst (add_to_bucket m a))"
  by (auto simp: add_to_bucket_def Let_def distinct_Map_set split: option.splits)

lemma distinct_foldl_add_to_bucket:
  "distinct (map fst m) \<Longrightarrow> distinct (map fst (foldl add_to_bucket m xs))"
  by (induction xs arbitrary: m) (simp_all add: distinct_add_to_bucket)

lemma map_of_foldl_add_to_bucket:
  "map_of (foldl add_to_bucket m xs) d =
     (case map_of m d of
        None \<Rightarrow> (if filter (in_decade d) xs = [] then None else Some (filter (in_decade d) xs))
      | Some c \<Rightarrow> Some (c @ filter (in_decade d) xs))"
proof (induction xs arbitrary: m)
  case Nil
  then show ?case by (simp split: option.splits)
next
  case (Cons a as)
  show ?case
    by (simp add: Cons.IH map_of_add_to_bucket split: option.splits)
qed

lemma group_by_decade_entries:
  "(d, items) \<in> set (group_by_decade xs) \<longleftrightarrow> items = filter (in_decade d) xs \<and> items \<noteq> []"
proof -
  have dist: "distinct (map fst (group_by_decade xs))"
    by (simp add: group_by_decade_def distinct_foldl_add_to_bucket)
  have "map_of (group_by_decade xs) d =
      (if filter (in_decade d) xs = [] then None else Some (filter (in_decade d) xs))"
    by (simp add: group_by_decade_def map_of_foldl_add_to_bucket)
  then show ?thesis
    using map_of_eq_Some_iff [OF dist, of d items] by (auto split: if_splits)
qed

lemma distinct_group_by_decade: "distinct (map fst (group_by_decade xs))"
  by (simp add: group_by_decade_def distinct_foldl_add_to_bucket)

lemma retained_iff:
  "retained a \<longleftrightarrow> (\<exists>y. date_start a = Some y \<and> y \<noteq> 0) \<and> title a \<noteq> []"
  by (auto simp: retained_def truthy_opt_number_def truthy_number_def truthy_string_def
      split: option.splits)

subsection \<open>The selection clamp\<close>

lemma clamp_nonneg: "0 \<le> current \<Longrightarrow> 0 \<le> clamp_selectedIndex decades current"
  by (cases decades) (simp_all add: clamp_selectedIndex_def)

lemma clamp_run_nonneg: "0 \<le> current \<Longrightarrow> 0 \<le> clamp_run current changes"
  unfolding clamp_run_def
  by (induction changes arbitrary: current) (simp_all add: clamp_nonneg)

subsection \<open>The bucket list\<close>

lemma insort_key_map:
  "insort_key f (g x) (map g ys) = map g (insort_key (\<lambda>z. f (g z)) x ys)"
  by (induction ys) simp_all

lemma sort_key_map: "sort_key f (map g xs) = map g (sort_key (\<lambda>z. f (g z)) xs)"
  by (induction xs) (simp_all add: insort_key_map)

lemma startYear_make_collection [simp]: "startYear (make_collection (d, items)) = d"
  by (simp add: make_collection_def)

lemma artworks_make_collection [simp]:
  "artworks (make_collection (d, items)) = sort_key date_key items"
  by (simp add: make_collection_def)

lemma label_make_collection [simp]:
  "label (make_collection (d, items)) = String_number d @ ''s''"
  by (simp add: make_collection_def)

lemma startYear_make_collection_fst: "startYear (make_collection e) = fst e"
  by (cases e) simp

lemma decades_multi_filter:
  "decades_multi as = filter (\<lambda>c. 20 \<le> length (artworks c)) (decades_single as)"
proof -
  let ?P = "\<lambda>c. 20 \<le> length (artworks c)"
  let ?E = "Map_entries (group_by_decade as)"
  have key: "(\<lambda>z. startYear (make_collection z)) = fst"
    by (simp add: fun_eq_iff startYear_make_collection_fst)
  have "decades_multi as = filter ?P (sort_key startYear (map make_collection ?E))"
    by (simp add: decades_multi_def filter_sort)
  also have "sort_key startYear (map make_collection ?E) = map make_collection (sort_key fst ?E)"
    by (simp add: sort_key_map key)
  finally show ?thesis
    by (simp add: decades_single_def)
qed

lemma in_decades_single:
  "b \<in> set (decades_single as) \<longleftrightarrow>
     (\<exists>d. filter (in_decade d) as \<noteq> [] \<and> b = make_collection (d, filter (in_decade d) as))"
  by (auto simp: decades_single_def Map_entries_def image_iff group_by_decade_entries)

lemma distinct_startYear_single: "distinct (map startYear (decades_single as))"
proof -
  have "map startYear (decades_single as) = map fst (sort_key fst (group_by_decade as))"
    by (simp add: decades_single_def Map_entries_def startYear_make_collection_fst)
  then show ?thesis
    using distinct_group_by_decade [of as] by (simp add: distinct_map)
qed

lemma sorted_startYear_single: "sorted (map startYear (decades_single as))"
proof -
  have "map startYear (decades_single as) = map fst (sort_key fst (group_by_decade as))"
    by (simp add: decades_single_def Map_entries_def startYear_make_collection_fst)
  then show ?thesis by simp
qed

lemma sorted_startYear_multi: "sorted (map startYear (decades_multi as))"
  by (simp add: decades_multi_def)

lemma member_single:
  assumes "b \<in> set (decades_single as)"
  shows "a \<in> set (artworks b) \<longleftrightarrow> a \<in> set as \<and> in_decade (startYear b) a"
  using assms by (auto simp: in_decades_single)

lemma bucket_of_record:
  assumes "a \<in> set as" "date_start a = Some y"
  shows "make_collection (decadeStart y, filter (in_decade (decadeStart y)) as) \<in> set (decades_single as)"
proof -
  from assms have "a \<in> set (filter (in_decade (decadeStart y)) as)"
    by (simp add: in_decade_def)
  then have "filter (in_decade (decadeStart y)) as \<noteq> []"
    by (auto simp: filter_empty_conv)
  then show ?thesis
    by (auto simp: in_decades_single)
qed

lemma single_bucket_eq:
  assumes "b \<in> set (decades_single as)" "b' \<in> set (decades_single as)" "startYear b = startYear b'"
  shows "b = b'"
  using assms by (auto simp: in_decades_single)

lemma length_members_single:
  "b \<in> set (decades_single as) \<Longrightarrow> length (artworks b) = length (filter (in_decade (startYear b)) as)"
  by (auto simp: in_decades_single)

subsection \<open>Fetching and \<open>Promise.all\<close>\<close>









section \<open>The claims\<close>

text \<open>
  C1, as stated, fails in the multi-page variant: a record that survives the aggregator
  but whose decade has fewer than 20 members is in no bucket, because the bucket is dropped.
\<close>

theorem sparse_decade_record_in_no_bucket:
  "scenario_A \<in> set (filtered_multi [[scenario_A]])
   \<and> date_start scenario_A = Some 1923
   \<and> decades_multi (filtered_multi [[scenario_A]]) = []"
  by code_simp

text \<open>
  C1, amended. Let the start years of the record set be integers of magnitude below
  \<open>2^53\<close>. In the single-page variant every record with a numeric start year is in
  exactly one decade bucket, and that bucket's start year is \<open>floor(date_start/10)*10\<close>,
  negative start years included. In the multi-page variant this holds for every record
  whose decade has at least 20 members in the record set, and a record whose decade has
  fewer is in no bucket. In both variants bucket start years are distinct, and every
  member of a bucket is a record of the input with
  \<open>floor(date_start/10)*10 = bucket.startYear\<close>.
\<close>

theorem record_in_its_decade_bucket:
  assumes safe: "safe_start_years as" and mem: "a \<in> set as" and start: "date_start a = Some y"
  shows "(\<exists>!b. b \<in> set (decades_single as) \<and> a \<in> set (artworks b))
    \<and> (\<forall>b \<in> set (decades_single as). a \<in> set (artworks b) \<longrightarrow> startYear b = (y div 10) * 10)
    \<and> distinct (map startYear (decades_single as))
    \<and> (20 \<le> length (filter (in_decade ((y div 10) * 10)) as) \<longrightarrow>
         (\<exists>!b. b \<in> set (decades_multi as) \<and> a \<in> set (artworks b)))
    \<and> (length (filter (in_decade ((y div 10) * 10)) as) < 20 \<longrightarrow>
         (\<forall>b \<in> set (decades_multi as). a \<notin> set (artworks b)))
    \<and> (\<forall>b \<in> set (decades_multi as). a \<in> set (artworks b) \<longrightarrow> startYear b = (y div 10) * 10)
    \<and> distinct (map startYear (decades_multi as))
    \<and> (\<forall>b \<in> set (decades_single as) \<union> set (decades_multi as). \<forall>a' \<in> set (artworks b).
         a' \<in> set as \<and> (\<exists>y'. date_start a' = Some y' \<and> startYear b = (y' div 10) * 10))"
proof -
  let ?d = "(y div 10) * 10"
  let ?b = "make_collection (?d, filter (in_decade ?d) as)"
  have d: "?d = decadeStart y" by (simp add: decadeStart_def)
  have dec: "in_decade d' a \<longleftrightarrow> d' = ?d" for d'
    using start by (auto simp: in_decade_def decadeStart_def)
  have b_in: "?b \<in> set (decades_single as)"
    using bucket_of_record [OF mem start] by (simp add: d)
  have a_in: "a \<in> set (artworks ?b)"
    using mem by (simp add: dec)
  have only: "b = ?b" if "b \<in> set (decades_single as)" "a \<in> set (artworks b)" for b
  proof -
    from that have "startYear b = ?d"
      by (simp add: member_single dec)
    with that(1) b_in show ?thesis
      by (intro single_bucket_eq [of b as ?b]) simp_all
  qed
  have len: "length (artworks ?b) = length (filter (in_decade ?d) as)"
    by simp
  have multi_set: "set (decades_multi as) = {c \<in> set (decades_single as). 20 \<le> length (artworks c)}"
    by (simp add: decades_multi_filter)
  have 1: "\<exists>!b. b \<in> set (decades_single as) \<and> a \<in> set (artworks b)"
    using b_in a_in only by blast
  have 2: "\<forall>b \<in> set (decades_single as). a \<in> set (artworks b) \<longrightarrow> startYear b = ?d"
    by (simp add: member_single dec)
  have 3: "distinct (map startYear (decades_single as))"
    by (rule distinct_startYear_single)
  have 4: "20 \<le> length (filter (in_decade ?d) as) \<longrightarrow>
         (\<exists>!b. b \<in> set (decades_multi as) \<and> a \<in> set (artworks b))"
  proof
    assume "20 \<le> length (filter (in_decade ?d) as)"
    with len b_in have "?b \<in> set (decades_multi as)"
      by (simp add: multi_set)
    moreover have "b = ?b" if "b \<in> set (decades_multi as)" "a \<in> set (artworks b)" for b
      using that only by (simp add: multi_set)
    ultimately show "\<exists>!b. b \<in> set (decades_multi as) \<and> a \<in> set (artworks b)"
      using a_in by blast
  qed
  have 5: "length (filter (in_decade ?d) as) < 20 \<longrightarrow>
         (\<forall>b \<in> set (decades_multi as). a \<notin> set (artworks b))"
  proof (intro impI ballI notI)
    fix b
    assume small: "length (filter (in_decade ?d) as) < 20"
      and b: "b \<in> set (decades_multi as)" and a: "a \<in> set (artworks b)"
    from b have "b \<in> set (decades_single as)" and big: "20 \<le> length (artworks b)"
      by (simp_all add: multi_set)
    with a have "b = ?b" by (simp add: only)
    with big len small show False by simp
  qed
  have 6: "\<forall>b \<in> set (decades_multi as). a \<in> set (artworks b) \<longrightarrow> startYear b = ?d"
    using 2 by (simp add: multi_set)
  have 7: "distinct (map startYear (decades_multi as))"
    unfolding decades_multi_filter by (rule distinct_map_filter) (rule 3)
  have 8: "\<forall>b \<in> set (decades_single as) \<union> set (decades_multi as). \<forall>a' \<in> set (artworks b).
         a' \<in> set as \<and> (\<exists>y'. date_start a' = Some y' \<and> startYear b = (y' div 10) * 10)"
  proof (intro ballI)
    fix b a'
    assume "b \<in> set (decades_single as) \<union> set (decades_multi as)" and a': "a' \<in> set (artworks b)"
    then have "b \<in> set (decades_single as)"
      by (auto simp: multi_set)
    with a' have "a' \<in> set as" "in_decade (startYear b) a'"
      by (simp_all add: member_single)
    then show "a' \<in> set as \<and> (\<exists>y'. date_start a' = Some y' \<and> startYear b = (y' div 10) * 10)"
      by (auto simp: in_decade_def decadeStart_def split: option.splits)
  qed
  from 1 2 3 4 5 6 7 8 show ?thesis by blast
qed

theorem record_in_its_decade_bucket_witness:
  "safe_start_years [scenario_A, negative_year_record]
   \<and> safe_start_years twenty_records
   \<and> negative_year_record \<in> set [scenario_A, negative_year_record]
   \<and> date_start negative_year_record = Some (- 5)
   \<and> (\<exists>!b. b \<in> set (decades_single [scenario_A, negative_year_record])
          \<and> negative_year_record \<in> set (artworks b))
   \<and> negative_bucket \<in> set (decades_single [scenario_A, negative_year_record])
   \<and> negative_year_record \<in> set (artworks negative_bucket)
   \<and> startYear negative_bucket = (- 5 div 10) * 10
   \<and> scenario_A \<in> set twenty_records
   \<and> date_start scenario_A = Some 1923
   \<and> 20 \<le> length (filter (in_decade ((1923 div 10) * 10)) twenty_records)
   \<and> (\<exists>!b. b \<in> set (decades_multi twenty_records) \<and> scenario_A \<in> set (artworks b))"
proof -
  have s1: "safe_start_years [scenario_A, negative_year_record]"
    by code_simp
  have s2: "safe_start_years twenty_records"
    by code_simp
  have h1: "negative_year_record \<in> set [scenario_A, negative_year_record]"
    by simp
  have h2: "date_start negative_year_record = Some (- 5)"
    by (simp add: negative_year_record_def)
  have h3: "negative_bucket \<in> set (decades_single [scenario_A, negative_year_record])"
    by code_simp
  have h4: "negative_year_record \<in> set (artworks negative_bucket)"
    by (simp add: negative_bucket_def)
  have h6: "startYear negative_bucket = (- 5 div 10) * 10"
    by (simp add: negative_bucket_def)
  have g1: "scenario_A \<in> set twenty_records"
    by code_simp
  have g2: "date_start scenario_A = Some 1923"
    by (simp add: scenario_A_def)
  have g3: "20 \<le> length (filter (in_decade ((1923 div 10) * 10)) twenty_records)"
    by code_simp
  note neg = record_in_its_decade_bucket [OF s1 h1 h2]
  note full = record_in_its_decade_bucket [OF s2 g1 g2]
  from neg have a1: "\<exists>!b. b \<in> set (decades_single [scenario_A, negative_year_record])
          \<and> negative_year_record \<in> set (artworks b)"
    by (rule conjunct1)
  from full g3 have b1: "\<exists>!b. b \<in> set (decades_multi twenty_records) \<and> scenario_A \<in> set (artworks b)"
    by (elim conjE) (erule (1) mp)
  from s1 s2 h1 h2 a1 h3 h4 h6 g1 g2 g3 b1
  show ?thesis by (intro conjI)
qed

text \<open>
  C2. In both variants the bucket list is sorted ascending by bucket start year, and the
  start years of the members of every bucket are all present and sorted ascending.
\<close>

theorem decades_sorted:
  "sorted (map startYear (decades_single as))
   \<and> sorted (map startYear (decades_multi as))
   \<and> (\<forall>b \<in> set (decades_single as) \<union> set (decades_multi as).
        \<exists>ys. map date_start (artworks b) = map Some ys \<and> sorted ys)"
proof -
  have inner: "\<exists>ys. map date_start (artworks b) = map Some ys \<and> sorted ys"
    if "b \<in> set (decades_single as)" for b
  proof -
    have "date_start a = Some (date_key a)" if "a \<in> set (artworks b)" for a
      using that \<open>b \<in> set (decades_single as)\<close>
      by (auto simp: member_single in_decade_def date_key_def split: option.splits)
    then have "map date_start (artworks b) = map Some (map date_key (artworks b))"
      by simp
    moreover have "sorted (map date_key (artworks b))"
      using that by (auto simp: in_decades_single)
    ultimately show ?thesis by blast
  qed
  have "set (decades_multi as) \<subseteq> set (decades_single as)"
    by (auto simp: decades_multi_filter)
  with inner sorted_startYear_single [of as] sorted_startYear_multi [of as]
  show ?thesis by blast
qed

theorem decades_sorted_witness:
  "scenario_bucket [scenario_A, later_record]
      \<in> set (decades_single [later_record, scenario_A]) \<union> set (decades_multi [later_record, scenario_A])
   \<and> (\<exists>ys. map date_start (artworks (scenario_bucket [scenario_A, later_record])) = map Some ys
          \<and> sorted ys)"
proof -
  have "scenario_bucket [scenario_A, later_record] \<in> set (decades_single [later_record, scenario_A])"
    by code_simp
  with decades_sorted [of "[later_record, scenario_A]"] show ?thesis
    by blast
qed

text \<open>
  C3, as stated, fails in both variants. On the page
  \<open>[{id:1,title:"A",date_start:1923}, {id:2,title:"",date_start:1925},
  {id:1,title:"A-dup",date_start:1923}]\<close> the multi-page load yields the filtered set
  \<open>[{id:1,title:"A",date_start:1923}]\<close> but an empty bucket list, because its only decade
  has fewer than 20 members; the single-page load does not deduplicate and yields both
  records with identifier 1.
\<close>

theorem scenario_as_stated_fails:
  "\<not> (state_artworks (fst (fetchArtworks_multi scenario_network initial_state)) = [scenario_A]
        \<and> decades_multi (state_artworks (fst (fetchArtworks_multi scenario_network initial_state)))
            = [scenario_bucket [scenario_A]])
   \<and> \<not> (state_artworks (fst (fetchArtworks_single scenario_network initial_state)) = [scenario_A]
        \<and> decades_single (state_artworks (fst (fetchArtworks_single scenario_network initial_state)))
            = [scenario_bucket [scenario_A]])"
  by code_simp

text \<open>
  C3, amended. On that page the multi-page load produces the filtered set
  \<open>[{id:1,title:"A",date_start:1923}]\<close> and the empty bucket list; the single-page load
  produces the filtered set with both records of identifier 1 and one bucket labelled
  \<open>1920s\<close>, start year 1920, holding both. The bucket list of the claim is what the
  single-page bucketizer returns on the deduplicated filtered set.
\<close>

theorem scenario_pipeline:
  "state_artworks (fst (fetchArtworks_multi scenario_network initial_state)) = [scenario_A]
   \<and> decades_multi (state_artworks (fst (fetchArtworks_multi scenario_network initial_state))) = []
   \<and> state_artworks (fst (fetchArtworks_single scenario_network initial_state))
       = [scenario_A, scenario_dup]
   \<and> decades_single (state_artworks (fst (fetchArtworks_single scenario_network initial_state)))
       = [scenario_bucket [scenario_A, scenario_dup]]
   \<and> decades_single (state_artworks (fst (fetchArtworks_multi scenario_network initial_state)))
       = [scenario_bucket [scenario_A]]"
  by code_simp

text \<open>
  C4, as stated, fails for the identifier 0: of two retained records that share it the
  deduplication keeps neither, so the first occurrence is not kept.
\<close>

theorem zero_identifier_pair_keeps_none:
  "artwork_id zero_id_record = artwork_id zero_id_twin
   \<and> retained zero_id_record \<and> retained zero_id_twin
   \<and> Map_values (dedupe (concat [[zero_id_record, zero_id_twin]])) = []
   \<and> filtered_multi [[zero_id_record, zero_id_twin]] = []"
  by code_simp

text \<open>
  C4, amended. Of the records of the merged page concatenation that share a non-zero
  identifier the deduplication keeps exactly the first occurrence in merge order, and it
  keeps no record with identifier 0; the kept records stand in merge order. The
  aggregator's output is that list restricted to the records that pass the retention
  filter: a record of the merged list is in the output exactly when its identifier is
  non-zero, it is the first record with that identifier, and it is retained.
\<close>

theorem dedupe_keeps_first_occurrences:
  "Map_values (dedupe merged)
     = spec_first_occurrences (filter (\<lambda>a. artwork_id a \<noteq> 0) merged)
   \<and> filtered_multi pages
     = filter retained (spec_first_occurrences (filter (\<lambda>a. artwork_id a \<noteq> 0) (concat pages)))
   \<and> distinct (map artwork_id (filtered_multi pages))
   \<and> subseq (filtered_multi pages) (concat pages)
   \<and> (\<forall>a \<in> set (concat pages).
        a \<in> set (filtered_multi pages) \<longleftrightarrow>
          artwork_id a \<noteq> 0 \<and> retained a
          \<and> List.find (\<lambda>b. artwork_id b = artwork_id a) (concat pages) = Some a)
   \<and> (\<forall>a \<in> set merged.
        a \<in> set (Map_values (dedupe merged)) \<longleftrightarrow>
          artwork_id a \<noteq> 0 \<and> List.find (\<lambda>b. artwork_id b = artwork_id a) merged = Some a)
   \<and> distinct (map artwork_id (Map_values (dedupe merged)))
   \<and> subseq (Map_values (dedupe merged)) merged"
proof -
  have 1: "Map_values (dedupe merged)
     = spec_first_occurrences (filter (\<lambda>a. artwork_id a \<noteq> 0) merged)" for merged
    by (simp add: values_dedupe first_occurrences_spec)
  have 2: "filtered_multi pages
     = filter retained (spec_first_occurrences (filter (\<lambda>a. artwork_id a \<noteq> 0) (concat pages)))"
    by (simp only: filtered_multi_def 1)
  have d: "distinct (map artwork_id (Map_values (dedupe merged)))" for merged
    by (simp add: values_dedupe first_occurrences_distinct)
  have s: "subseq (Map_values (dedupe merged)) merged" for merged
    by (simp add: values_dedupe first_occurrences_subseq)
  have m: "a \<in> set (Map_values (dedupe merged)) \<longleftrightarrow>
          artwork_id a \<noteq> 0 \<and> List.find (\<lambda>b. artwork_id b = artwork_id a) merged = Some a"
    for a merged
    using first_occurrences_ids [of a "{}" merged] first_occurrences_find [of a "{}" merged]
      first_occurrences_keeps [of a merged "{}"]
    by (auto simp: values_dedupe)
  have 3: "distinct (map artwork_id (filtered_multi pages))"
    unfolding filtered_multi_def by (rule distinct_map_filter) (rule d)
  have "subseq (filtered_multi pages) (Map_values (dedupe (concat pages)))"
    by (simp add: filtered_multi_def)
  then have 4: "subseq (filtered_multi pages) (concat pages)"
    using s [of "concat pages"] by (rule subseq_order.trans)
  have 5: "\<forall>a \<in> set (concat pages).
        a \<in> set (filtered_multi pages) \<longleftrightarrow>
          artwork_id a \<noteq> 0 \<and> retained a
          \<and> List.find (\<lambda>b. artwork_id b = artwork_id a) (concat pages) = Some a"
    using m [of _ "concat pages"] by (auto simp: filtered_multi_def)
  have 6: "\<forall>a \<in> set merged.
        a \<in> set (Map_values (dedupe merged)) \<longleftrightarrow>
          artwork_id a \<noteq> 0 \<and> List.find (\<lambda>b. artwork_id b = artwork_id a) merged = Some a"
    using m [of _ merged] by blast
  from 1 [of merged] 2 3 4 5 6 d [of merged] s [of merged] show ?thesis
    by (intro conjI)
qed

theorem dedupe_keeps_first_occurrences_witness:
  "scenario_A \<in> set (concat [scenario_page])
   \<and> artwork_id scenario_A \<noteq> 0
   \<and> retained scenario_A
   \<and> List.find (\<lambda>b. artwork_id b = artwork_id scenario_A) (concat [scenario_page]) = Some scenario_A
   \<and> scenario_A \<in> set (filtered_multi [scenario_page])
   \<and> scenario_dup \<in> set (concat [scenario_page])
   \<and> List.find (\<lambda>b. artwork_id b = artwork_id scenario_dup) (concat [scenario_page]) = Some scenario_A
   \<and> scenario_dup \<notin> set (filtered_multi [scenario_page])
   \<and> scenario_untitled \<in> set scenario_page
   \<and> scenario_untitled \<in> set (Map_values (dedupe scenario_page))"
proof -
  note inst = dedupe_keeps_first_occurrences [of scenario_page "[scenario_page]"]
  have a1: "scenario_A \<in> set (concat [scenario_page])"
    and a2: "artwork_id scenario_A \<noteq> 0"
    and a3: "retained scenario_A"
    and a4: "List.find (\<lambda>b. artwork_id b = artwork_id scenario_A) (concat [scenario_page])
        = Some scenario_A"
    and b1: "scenario_dup \<in> set (concat [scenario_page])"
    and b2: "List.find (\<lambda>b. artwork_id b = artwork_id scenario_dup) (concat [scenario_page])
        = Some scenario_A"
    and c1: "scenario_untitled \<in> set scenario_page"
    and c2: "artwork_id scenario_untitled \<noteq> 0"
    and c3: "List.find (\<lambda>b. artwork_id b = artwork_id scenario_untitled) scenario_page
        = Some scenario_untitled"
    and ne: "scenario_A \<noteq> scenario_dup"
    by code_simp+
  from inst have final: "\<forall>a \<in> set (concat [scenario_page]).
        a \<in> set (filtered_multi [scenario_page]) \<longleftrightarrow>
          artwork_id a \<noteq> 0 \<and> retained a
          \<and> List.find (\<lambda>b. artwork_id b = artwork_id a) (concat [scenario_page]) = Some a"
    by blast
  from inst have mid: "\<forall>a \<in> set scenario_page.
        a \<in> set (Map_values (dedupe scenario_page)) \<longleftrightarrow>
          artwork_id a \<noteq> 0
          \<and> List.find (\<lambda>b. artwork_id b = artwork_id a) scenario_page = Some a"
    by blast
  from final a1 a2 a3 a4 have r1: "scenario_A \<in> set (filtered_multi [scenario_page])"
    by blast
  from final b1 b2 ne have r2: "scenario_dup \<notin> set (filtered_multi [scenario_page])"
    by auto
  from mid c1 c2 c3 have r3: "scenario_untitled \<in> set (Map_values (dedupe scenario_page))"
    by blast
  from a1 a2 a3 a4 r1 b1 b2 r2 c1 r3 show ?thesis
    by (intro conjI)
qed

text \<open>
  C5. A record whose title is empty or whose start year is absent is in the output of
  neither variant's retention filter, whatever the input.
\<close>

theorem untitled_or_undated_never_retained:
  "title a = [] \<or> date_start a = None \<Longrightarrow>
     a \<notin> set (filtered_single page) \<and> a \<notin> set (filtered_multi pages)"
  by (auto simp: filtered_single_def filtered_multi_def retained_iff)

theorem untitled_or_undated_never_retained_witness:
  "title scenario_untitled = []
   \<and> scenario_untitled \<in> set scenario_page
   \<and> scenario_untitled \<notin> set (filtered_single scenario_page)
   \<and> scenario_untitled \<notin> set (filtered_multi [scenario_page])"
proof -
  have t: "title scenario_untitled = []"
    by (simp add: scenario_untitled_def)
  then have h: "title scenario_untitled = [] \<or> date_start scenario_untitled = None"
    by (rule disjI1)
  have "scenario_untitled \<in> set scenario_page"
    by (simp add: scenario_page_def)
  with t untitled_or_undated_never_retained [OF h, of scenario_page "[scenario_page]"]
  show ?thesis by blast
qed




text \<open>
  C7. When the bucket list changes to a non-empty list, the selected index becomes
  \<open>min(currentIndex, bucketCount - 1)\<close>, which is \<open>bucketCount - 1\<close> for every previous
  index beyond it. On an empty bucket list the effect returns early and leaves the index as
  it is. A non-negative index stays non-negative, so from the initial index 0 no sequence
  of bucket-list changes makes it negative.
\<close>

theorem selectedIndex_clamped:
  "(decades \<noteq> [] \<longrightarrow>
      clamp_selectedIndex decades current = min current (int (length decades) - 1))
   \<and> (decades \<noteq> [] \<and> int (length decades) - 1 < current \<longrightarrow>
      clamp_selectedIndex decades current = int (length decades) - 1)
   \<and> (decades = [] \<longrightarrow> clamp_selectedIndex decades current = current)
   \<and> (0 \<le> current \<longrightarrow> 0 \<le> clamp_selectedIndex decades current)
   \<and> 0 \<le> clamp_run (selectedIndex initial_state) changes"
  using clamp_nonneg [of current decades]
    clamp_run_nonneg [of "selectedIndex initial_state" changes]
  by (auto simp: clamp_selectedIndex_def initial_state_def)

theorem selectedIndex_clamped_witness:
  "[scenario_bucket [scenario_A], scenario_bucket [scenario_dup]] \<noteq> []
   \<and> int (length [scenario_bucket [scenario_A], scenario_bucket [scenario_dup]]) - 1 < 5
   \<and> (0::int) \<le> 5
   \<and> clamp_selectedIndex [scenario_bucket [scenario_A], scenario_bucket [scenario_dup]] 5 = 1
   \<and> clamp_selectedIndex [] 5 = 5"
  using selectedIndex_clamped
    [of "[scenario_bucket [scenario_A], scenario_bucket [scenario_dup]]" 5 "[]"]
    selectedIndex_clamped [of "[]" 5 "[]"]
  by simp

text \<open>
  C8. For a record with a non-empty image identifier the image URL is
  \<open>https://www.artic.edu/iiif/2/{image_id}/full/843,/0/default.jpg\<close>; for a record
  without one (absent, or the empty string) it is the fixed fallback, which puts the
  constant identifier \<open>8d6f8f8b-fafa-376e-4f0f-0a36d4f7288f\<close> under the same IIIF path,
  on the host \<open>images.artic.edu\<close>.
\<close>

theorem imageUrl_of_record:
  "(image_id a = Some s \<and> s \<noteq> [] \<longrightarrow>
      imageUrl (image_id a) = ''https://www.artic.edu/iiif/2/'' @ s @ ''/full/843,/0/default.jpg'')
   \<and> (image_id a = None \<or> image_id a = Some [] \<longrightarrow>
      imageUrl (image_id a) =
        ''https://images.artic.edu/iiif/2/'' @ ''8d6f8f8b-fafa-376e-4f0f-0a36d4f7288f''
          @ ''/full/843,/0/default.jpg'')"
  by (auto simp: imageUrl_def truthy_string_def)

theorem imageUrl_of_record_witness:
  "image_id (scenario_A\<lparr>image_id := Some ''abc''\<rparr>) = Some ''abc''
   \<and> ''abc'' \<noteq> []
   \<and> imageUrl (image_id (scenario_A\<lparr>image_id := Some ''abc''\<rparr>))
       = ''https://www.artic.edu/iiif/2/abc/full/843,/0/default.jpg''
   \<and> image_id scenario_A = None
   \<and> imageUrl (image_id scenario_A)
       = ''https://images.artic.edu/iiif/2/8d6f8f8b-fafa-376e-4f0f-0a36d4f7288f/full/843,/0/default.jpg''"
  using imageUrl_of_record [of "scenario_A\<lparr>image_id := Some ''abc''\<rparr>" "''abc''"]
    imageUrl_of_record [of scenario_A "[]"]
  by (simp add: scenario_A_def)

text \<open>
  C9. Every bucket returned by the multi-page variant has at least 20 members; a decade has
  a bucket there exactly when the record set holds at least 20 records of that decade. The
  single-page variant has a bucket for every decade with at least one record, and each
  bucket holds all records of its decade. The multi-page bucket list is the single-page
  bucket list without the buckets of fewer than 20 members.
\<close>

theorem minimum_bucket_size:
  "(\<forall>b \<in> set (decades_multi as). 20 \<le> length (artworks b))
   \<and> (\<forall>d. d \<in> startYear ` set (decades_multi as) \<longleftrightarrow> 20 \<le> length (filter (in_decade d) as))
   \<and> (\<forall>d. d \<in> startYear ` set (decades_single as) \<longleftrightarrow> 1 \<le> length (filter (in_decade d) as))
   \<and> (\<forall>b \<in> set (decades_single as).
        length (artworks b) = length (filter (in_decade (startYear b)) as))
   \<and> decades_multi as = filter (\<lambda>c. 20 \<le> length (artworks c)) (decades_single as)"
proof -
  have 1: "\<forall>b \<in> set (decades_multi as). 20 \<le> length (artworks b)"
    by (simp add: decades_multi_filter)
  have 3: "d \<in> startYear ` set (decades_single as) \<longleftrightarrow> 1 \<le> length (filter (in_decade d) as)" for d
  proof
    assume "d \<in> startYear ` set (decades_single as)"
    then show "1 \<le> length (filter (in_decade d) as)"
      by (auto simp: in_decades_single Suc_le_eq)
  next
    assume "1 \<le> length (filter (in_decade d) as)"
    then have "filter (in_decade d) as \<noteq> []" by auto
    then have "make_collection (d, filter (in_decade d) as) \<in> set (decades_single as)"
      by (auto simp: in_decades_single)
    then show "d \<in> startYear ` set (decades_single as)"
      by (metis image_eqI startYear_make_collection)
  qed
  have 2: "d \<in> startYear ` set (decades_multi as) \<longleftrightarrow> 20 \<le> length (filter (in_decade d) as)" for d
  proof
    assume "d \<in> startYear ` set (decades_multi as)"
    then show "20 \<le> length (filter (in_decade d) as)"
      by (auto simp: decades_multi_filter in_decades_single)
  next
    assume big: "20 \<le> length (filter (in_decade d) as)"
    then have "filter (in_decade d) as \<noteq> []" by auto
    then have "make_collection (d, filter (in_decade d) as) \<in> set (decades_single as)"
      by (auto simp: in_decades_single)
    with big have "make_collection (d, filter (in_decade d) as) \<in> set (decades_multi as)"
      by (simp add: decades_multi_filter)
    then show "d \<in> startYear ` set (decades_multi as)"
      by (metis image_eqI startYear_make_collection)
  qed
  have 4: "\<forall>b \<in> set (decades_single as).
        length (artworks b) = length (filter (in_decade (startYear b)) as)"
    by (simp add: length_members_single)
  from 1 2 3 4 decades_multi_filter [of as] show ?thesis by blast
qed

theorem minimum_bucket_size_witness:
  "20 \<le> length (filter (in_decade 1920) (sparse_record # twenty_records))
   \<and> (\<exists>b \<in> set (decades_multi (sparse_record # twenty_records)).
         startYear b = 1920 \<and> 20 \<le> length (artworks b))
   \<and> length (filter (in_decade 1930) (sparse_record # twenty_records)) = 1
   \<and> 1930 \<notin> startYear ` set (decades_multi (sparse_record # twenty_records))
   \<and> (\<exists>b \<in> set (decades_single (sparse_record # twenty_records)).
         startYear b = 1930 \<and> length (artworks b) = 1)"
proof -
  let ?as = "sparse_record # twenty_records"
  have full: "20 \<le> length (filter (in_decade 1920) ?as)"
    by code_simp
  have sparse: "length (filter (in_decade 1930) ?as) = 1"
    by code_simp
  note inst = minimum_bucket_size [of ?as]
  from inst have multi_iff: "d \<in> startYear ` set (decades_multi ?as)
      \<longleftrightarrow> 20 \<le> length (filter (in_decade d) ?as)" for d
    by blast
  from inst have single_iff: "d \<in> startYear ` set (decades_single ?as)
      \<longleftrightarrow> 1 \<le> length (filter (in_decade d) ?as)" for d
    by blast
  from inst have big: "\<forall>b \<in> set (decades_multi ?as). 20 \<le> length (artworks b)"
    by (rule conjunct1)
  from inst have count: "\<forall>b \<in> set (decades_single ?as).
      length (artworks b) = length (filter (in_decade (startYear b)) ?as)"
    by blast
  from full have "1920 \<in> startYear ` set (decades_multi ?as)"
    by (simp only: multi_iff)
  then obtain b where b: "b \<in> set (decades_multi ?as)" "startYear b = 1920"
    by auto
  with big have 1: "\<exists>b \<in> set (decades_multi ?as). startYear b = 1920 \<and> 20 \<le> length (artworks b)"
    by blast
  have 2: "1930 \<notin> startYear ` set (decades_multi ?as)"
    unfolding multi_iff sparse by simp
  have "1930 \<in> startYear ` set (decades_single ?as)"
    unfolding single_iff sparse by simp
  then obtain b' where b': "b' \<in> set (decades_single ?as)" "startYear b' = 1930"
    by auto
  with count have "length (artworks b') = length (filter (in_decade 1930) ?as)"
    by metis
  with sparse b' have 3: "\<exists>b \<in> set (decades_single ?as). startYear b = 1930 \<and> length (artworks b) = 1"
    by auto
  from full 1 sparse 2 3 show ?thesis by (intro conjI)
qed

text \<open>
  C10. A record whose start year is the number 0 is discarded by the retention filter of
  both variants, and in the multi-page variant a record whose identifier is 0 is dropped by
  the deduplication loop, whatever its title and start year.
\<close>

theorem zero_year_and_zero_id_dropped:
  "(date_start a = Some 0 \<longrightarrow>
      a \<notin> set (filtered_single page) \<and> a \<notin> set (filtered_multi pages))
   \<and> (artwork_id a = 0 \<longrightarrow>
      a \<notin> set (Map_values (dedupe (concat pages))) \<and> a \<notin> set (filtered_multi pages))"
  by (auto simp: filtered_single_def filtered_multi_def retained_iff values_dedupe
      dest: first_occurrences_ids)

theorem zero_year_and_zero_id_dropped_witness:
  "date_start zero_year_record = Some 0
   \<and> title zero_year_record \<noteq> []
   \<and> zero_year_record \<notin> set (filtered_single [zero_year_record])
   \<and> zero_year_record \<notin> set (filtered_multi [[zero_year_record]])
   \<and> artwork_id zero_id_record = 0
   \<and> retained zero_id_record
   \<and> zero_id_record \<notin> set (Map_values (dedupe (concat [[zero_id_record]])))
   \<and> zero_id_record \<notin> set (filtered_multi [[zero_id_record]])"
  using zero_year_and_zero_id_dropped
      [of zero_year_record "[zero_year_record]" "[[zero_year_record]]"]
    zero_year_and_zero_id_dropped [of zero_id_record "[]" "[[zero_id_record]]"]
  by (simp add: zero_year_record_def zero_id_record_def scenario_A_def retained_iff)

end
